theory Spec2Isabelle
  imports Complex_Main
begin

section \<open>Scalars, returned values and the holders\<close>

text \<open>
  The C++ type \<open>double\<close> is modelled by the real numbers: \<open>+\<close>, \<open>-\<close>, \<open>*\<close> and \<open>/\<close> are
  the exact operations, so rounding, infinities and NaN are outside the model. Division by
  zero, which yields an infinity or a NaN in the source, is \<open>0\<close> in HOL; no statement below
  divides by zero.
\<close>

type_synonym double = real

text \<open>
  What a member function hands back to its caller. A function declared \<open>void\<close> hands back
  nothing and may change the object; a \<open>const\<close> member function hands back a value and
  leaves the object as it is.
\<close>

datatype 'a returned = Void | Returned 'a

definition call_void :: "('s \<Rightarrow> 's) \<Rightarrow> 's \<Rightarrow> 'a returned \<times> 's" where
  "call_void m s = (Void, m s)"

definition call_const :: "('s \<Rightarrow> 'a) \<Rightarrow> 's \<Rightarrow> 'a returned \<times> 's" where
  "call_const f s = (Returned (f s), s)"

text \<open>
  Raw pointers to holders (\<open>ChShaft*\<close>, \<open>ChBody*\<close>) are addresses into a store that the
  system owns. No method of the two classes checks a pointer before following it, so the
  store is total and pointer validity stays the caller's obligation, as in the source.
\<close>

type_synonym addr = nat

text \<open>
  Modelled from the spec: \<open>ChShaft\<close> (ChShaft.h is not among the sources). A shaft is a
  one-degree-of-freedom holder with a position state and a velocity state, read by
  \<open>GetPos\<close> and \<open>GetPosDt\<close>.
\<close>

record ChShaft =
  shaft_pos :: double
  shaft_pos_dt :: double

definition GetPos :: "ChShaft \<Rightarrow> double" where
  "GetPos sh = shaft_pos sh"

definition GetPosDt :: "ChShaft \<Rightarrow> double" where
  "GetPosDt sh = shaft_pos_dt sh"

text \<open>
  Modelled from the spec: the solver's constraint classes (\<open>ChConstraintThreeGeneric\<close>,
  \<open>ChConstraintTwoBodies\<close>) are not among the sources. A Constraint Row owns a Jacobian
  row, a scalar Lagrange multiplier and the right-hand side into which the stabilization
  term is loaded.
\<close>

record ChConstraint =
  Cq :: "double list"
  l_i :: double
  b_i :: double

definition GetRightHandSide :: "ChConstraint \<Rightarrow> double" where
  "GetRightHandSide c = b_i c"

definition SetRightHandSide :: "double \<Rightarrow> ChConstraint \<Rightarrow> ChConstraint" where
  "SetRightHandSide v c = c\<lparr>b_i := v\<rparr>"

section \<open>ChShaftsPlanetary\<close>

record ChShaftsPlanetary =
  active :: bool
  r1 :: double
  r2 :: double
  r3 :: double
  torque_react :: double
  avoid_phase_drift :: bool
  phase1 :: double
  phase2 :: double
  phase3 :: double
  constraint :: ChConstraint
  shaft1 :: addr
  shaft2 :: addr
  shaft3 :: addr

definition SetDisabled :: "bool \<Rightarrow> ChShaftsPlanetary \<Rightarrow> ChShaftsPlanetary" where
  "SetDisabled val g = g\<lparr>active := \<not> val\<rparr>"

definition GetShaft1 :: "ChShaftsPlanetary \<Rightarrow> addr" where
  "GetShaft1 g = shaft1 g"

definition GetShaft2 :: "ChShaftsPlanetary \<Rightarrow> addr" where
  "GetShaft2 g = shaft2 g"

definition GetShaft3 :: "ChShaftsPlanetary \<Rightarrow> addr" where
  "GetShaft3 g = shaft3 g"

definition GetSpeedShaft1 :: "(addr \<Rightarrow> ChShaft) \<Rightarrow> ChShaftsPlanetary \<Rightarrow> double" where
  "GetSpeedShaft1 shafts g = GetPosDt (shafts (shaft1 g))"

definition GetSpeedShaft2 :: "(addr \<Rightarrow> ChShaft) \<Rightarrow> ChShaftsPlanetary \<Rightarrow> double" where
  "GetSpeedShaft2 shafts g = GetPosDt (shafts (shaft2 g))"

definition GetSpeedShaft3 :: "(addr \<Rightarrow> ChShaft) \<Rightarrow> ChShaftsPlanetary \<Rightarrow> double" where
  "GetSpeedShaft3 shafts g = GetPosDt (shafts (shaft3 g))"

definition SetTransmissionRatios ::
  "double \<Rightarrow> double \<Rightarrow> double \<Rightarrow> ChShaftsPlanetary \<Rightarrow> ChShaftsPlanetary" where
  "SetTransmissionRatios r_1 r_2 r_3 g = g\<lparr>r1 := r_1, r2 := r_2, r3 := r_3\<rparr>"

definition SetTransmissionRatioOrdinary :: "double \<Rightarrow> ChShaftsPlanetary \<Rightarrow> ChShaftsPlanetary" where
  "SetTransmissionRatioOrdinary t0 g = g\<lparr>r1 := 1 - t0, r2 := t0, r3 := - 1\<rparr>"

definition GetTransmissionRatioOrdinary :: "ChShaftsPlanetary \<Rightarrow> double" where
  "GetTransmissionRatioOrdinary g = - r2 g / r3 g"

definition GetTransmissionR1 :: "ChShaftsPlanetary \<Rightarrow> double" where
  "GetTransmissionR1 g = r1 g"

definition GetTransmissionR2 :: "ChShaftsPlanetary \<Rightarrow> double" where
  "GetTransmissionR2 g = r2 g"

definition GetTransmissionR3 :: "ChShaftsPlanetary \<Rightarrow> double" where
  "GetTransmissionR3 g = r3 g"

definition AvoidPhaseDrift :: "bool \<Rightarrow> ChShaftsPlanetary \<Rightarrow> ChShaftsPlanetary" where
  "AvoidPhaseDrift avoid g = g\<lparr>avoid_phase_drift := avoid\<rparr>"

definition ChShaftsPlanetary_GetReaction1 :: "ChShaftsPlanetary \<Rightarrow> double" where
  "ChShaftsPlanetary_GetReaction1 g = r1 g * torque_react g"

definition ChShaftsPlanetary_GetReaction2 :: "ChShaftsPlanetary \<Rightarrow> double" where
  "ChShaftsPlanetary_GetReaction2 g = r2 g * torque_react g"

definition GetTorqueReactionOn3 :: "ChShaftsPlanetary \<Rightarrow> double" where
  "GetTorqueReactionOn3 g = r3 g * torque_react g"

definition GetNumAffectedCoords :: "ChShaftsPlanetary \<Rightarrow> nat" where
  "GetNumAffectedCoords g = 3"

definition ChShaftsPlanetary_GetNumConstraintsBilateral :: "ChShaftsPlanetary \<Rightarrow> nat" where
  "ChShaftsPlanetary_GetNumConstraintsBilateral g = 1"

text \<open>A coupling used as the concrete object of the closed statements below.\<close>

definition example_gear :: ChShaftsPlanetary where
  "example_gear =
     \<lparr>active = True, r1 = - 2, r2 = 1, r3 = 1, torque_react = 5, avoid_phase_drift = True,
      phase1 = 0, phase2 = 0, phase3 = 0,
      constraint = \<lparr>Cq = [- 2, 1, 1], l_i = 5, b_i = 0\<rparr>,
      shaft1 = 1, shaft2 = 2, shaft3 = 3\<rparr>"

text \<open>
  Modelled from the spec: \<open>ConstraintsBiReset\<close>, \<open>ConstraintsBiLoad_C\<close> and \<open>Update\<close> of the
  coupling are declared in the header and defined in ChShaftsPlanetary.cpp, which is not
  among the sources. The spec: "reset and then load the stabilization term: the violation
  scaled by \<open>factor\<close>, optionally clamped in magnitude to \<open>recovery_clamp\<close> [...] when
  \<open>do_clamp\<close> is set". The default arguments are the header's.
\<close>

definition stabilization_term :: "double \<Rightarrow> double \<Rightarrow> bool \<Rightarrow> double \<Rightarrow> double" where
  "stabilization_term factor recovery_clamp do_clamp C =
     (if do_clamp then min (max (factor * C) (- recovery_clamp)) recovery_clamp
      else factor * C)"

definition default_factor :: double where
  "default_factor = 1"

definition default_recovery_clamp :: double where
  "default_recovery_clamp = 0.1"

definition default_do_clamp :: bool where
  "default_do_clamp = False"

definition ChShaftsPlanetary_ConstraintsBiReset :: "ChShaftsPlanetary \<Rightarrow> ChShaftsPlanetary" where
  "ChShaftsPlanetary_ConstraintsBiReset g = g\<lparr>constraint := SetRightHandSide 0 (constraint g)\<rparr>"

text \<open>
  The spec gives no formula for the coupling's position-level violation (the "phase
  difference"), so the current violation value \<open>C\<close> is a parameter of the model.
\<close>

definition ChShaftsPlanetary_ConstraintsBiLoad_C ::
  "double \<Rightarrow> double \<Rightarrow> double \<Rightarrow> bool \<Rightarrow> ChShaftsPlanetary \<Rightarrow> ChShaftsPlanetary" where
  "ChShaftsPlanetary_ConstraintsBiLoad_C C factor recovery_clamp do_clamp g =
     g\<lparr>constraint :=
         SetRightHandSide
           (GetRightHandSide (constraint g) + stabilization_term factor recovery_clamp do_clamp C)
           (constraint g)\<rparr>"

text \<open>
  The coupling together with the store of the shafts its pointers lead into. The spec on
  \<open>Update\<close>: "Pure function of current state; no side effects on the holders", and on the
  phase accumulators: "updated every step by the Connection's own Update", when phase-drift
  avoidance is enabled. The spec gives no integration rule, so the rule (from the time,
  the shaft's state and the old phase to the new phase) is a parameter.
\<close>

record gear_world =
  shafts :: "addr \<Rightarrow> ChShaft"
  gear :: ChShaftsPlanetary

definition ChShaftsPlanetary_Update ::
  "(double \<Rightarrow> ChShaft \<Rightarrow> double \<Rightarrow> double) \<Rightarrow> double \<Rightarrow> bool \<Rightarrow> gear_world \<Rightarrow> gear_world" where
  "ChShaftsPlanetary_Update integrate time update_assets w =
     (let g = gear w in
      if avoid_phase_drift g then
        w\<lparr>gear := g\<lparr>phase1 := integrate time (shafts w (shaft1 g)) (phase1 g),
                     phase2 := integrate time (shafts w (shaft2 g)) (phase2 g),
                     phase3 := integrate time (shafts w (shaft3 g)) (phase3 g)\<rparr>\<rparr>
      else w)"

section \<open>ChLinkRevoluteTranslational\<close>

text \<open>
  Modelled from the spec: \<open>ChVector3d\<close>, the rotation matrix and the frame of a body
  (ChVector3.h, ChMatrix33.h, ChFrame.h and ChBody.h are not among the sources). The spec
  uses the dot product, the difference of points and the Euclidean norm; a body "owns a
  local coordinate frame and velocity-level state", and local points and directions are
  "re-expressed into the absolute frame". The frame is a position and a rotation matrix
  (written by its rows); the transform to the local frame uses the transposed matrix.
\<close>

datatype ChVector3d = ChVector3d double double double

fun Vadd :: "ChVector3d \<Rightarrow> ChVector3d \<Rightarrow> ChVector3d" where
  "Vadd (ChVector3d a b c) (ChVector3d a' b' c') = ChVector3d (a + a') (b + b') (c + c')"

fun Vsub :: "ChVector3d \<Rightarrow> ChVector3d \<Rightarrow> ChVector3d" where
  "Vsub (ChVector3d a b c) (ChVector3d a' b' c') = ChVector3d (a - a') (b - b') (c - c')"

fun Vmul :: "ChVector3d \<Rightarrow> double \<Rightarrow> ChVector3d" where
  "Vmul (ChVector3d a b c) k = ChVector3d (a * k) (b * k) (c * k)"

fun Vdot :: "ChVector3d \<Rightarrow> ChVector3d \<Rightarrow> double" where
  "Vdot (ChVector3d a b c) (ChVector3d a' b' c') = a * a' + b * b' + c * c'"

definition Vlength :: "ChVector3d \<Rightarrow> double" where
  "Vlength v = sqrt (Vdot v v)"

datatype ChMatrix33 = ChMatrix33 ChVector3d ChVector3d ChVector3d

fun Mat_times :: "ChMatrix33 \<Rightarrow> ChVector3d \<Rightarrow> ChVector3d" where
  "Mat_times (ChMatrix33 u v w) p = ChVector3d (Vdot u p) (Vdot v p) (Vdot w p)"

fun Mat_transpose_times :: "ChMatrix33 \<Rightarrow> ChVector3d \<Rightarrow> ChVector3d" where
  "Mat_transpose_times (ChMatrix33 u v w) (ChVector3d a b c) =
     Vadd (Vadd (Vmul u a) (Vmul v b)) (Vmul w c)"

record ChBody =
  frame_pos :: ChVector3d
  frame_rot :: ChMatrix33
  frame_pos_dt :: ChVector3d
  frame_ang_vel :: ChVector3d

definition TransformPointLocalToParent :: "ChBody \<Rightarrow> ChVector3d \<Rightarrow> ChVector3d" where
  "TransformPointLocalToParent b p = Vadd (frame_pos b) (Mat_times (frame_rot b) p)"

definition TransformDirectionLocalToParent :: "ChBody \<Rightarrow> ChVector3d \<Rightarrow> ChVector3d" where
  "TransformDirectionLocalToParent b d = Mat_times (frame_rot b) d"

definition TransformPointParentToLocal :: "ChBody \<Rightarrow> ChVector3d \<Rightarrow> ChVector3d" where
  "TransformPointParentToLocal b p = Mat_transpose_times (frame_rot b) (Vsub p (frame_pos b))"

definition TransformDirectionParentToLocal :: "ChBody \<Rightarrow> ChVector3d \<Rightarrow> ChVector3d" where
  "TransformDirectionParentToLocal b d = Mat_transpose_times (frame_rot b) d"

text \<open>
  \<open>ChVectorN<double, 4>\<close> has exactly four components; \<open>ChVectorDynamic<>\<close> has any number.
  Returning \<open>m_C\<close> as a \<open>ChVectorDynamic<>\<close> copies the four components in their order.
\<close>

datatype ChVectorN4 = ChVectorN4 double double double double

type_synonym ChVectorDynamic = "double list"

fun to_dynamic :: "ChVectorN4 \<Rightarrow> ChVectorDynamic" where
  "to_dynamic (ChVectorN4 a b c d) = [a, b, c, d]"

text \<open>
  The members the header declares, and the two body pointers \<open>m_body1\<close>, \<open>m_body2\<close> that
  the class inherits from \<open>ChLink\<close> and follows in its accessors.
\<close>

record ChLinkRevoluteTranslational =
  m_body1 :: addr
  m_body2 :: addr
  m_p1 :: ChVector3d
  m_p2 :: ChVector3d
  m_z1 :: ChVector3d
  m_x2 :: ChVector3d
  m_y2 :: ChVector3d
  m_dist :: double
  m_cur_par1 :: double
  m_cur_par2 :: double
  m_cur_dot :: double
  m_cur_dist :: double
  m_cnstr_par1 :: ChConstraint
  m_cnstr_par2 :: ChConstraint
  m_cnstr_dot :: ChConstraint
  m_cnstr_dist :: ChConstraint
  m_C :: ChVectorN4
  m_multipliers :: ChVectorN4

definition ChLinkRevoluteTranslational_GetNumConstraintsBilateral ::
  "ChLinkRevoluteTranslational \<Rightarrow> nat" where
  "ChLinkRevoluteTranslational_GetNumConstraintsBilateral j = 4"

definition GetImposedDistance :: "ChLinkRevoluteTranslational \<Rightarrow> double" where
  "GetImposedDistance j = m_dist j"

definition GetCurrentDistance :: "ChLinkRevoluteTranslational \<Rightarrow> double" where
  "GetCurrentDistance j = m_cur_dist j"

definition GetPoint1Abs :: "(addr \<Rightarrow> ChBody) \<Rightarrow> ChLinkRevoluteTranslational \<Rightarrow> ChVector3d" where
  "GetPoint1Abs bodies j = TransformPointLocalToParent (bodies (m_body1 j)) (m_p1 j)"

definition GetDirZ1Abs :: "(addr \<Rightarrow> ChBody) \<Rightarrow> ChLinkRevoluteTranslational \<Rightarrow> ChVector3d" where
  "GetDirZ1Abs bodies j = TransformDirectionLocalToParent (bodies (m_body1 j)) (m_z1 j)"

definition GetPoint2Abs :: "(addr \<Rightarrow> ChBody) \<Rightarrow> ChLinkRevoluteTranslational \<Rightarrow> ChVector3d" where
  "GetPoint2Abs bodies j = TransformPointLocalToParent (bodies (m_body2 j)) (m_p2 j)"

definition GetDirX2Abs :: "(addr \<Rightarrow> ChBody) \<Rightarrow> ChLinkRevoluteTranslational \<Rightarrow> ChVector3d" where
  "GetDirX2Abs bodies j = TransformDirectionLocalToParent (bodies (m_body2 j)) (m_x2 j)"

definition GetDirY2Abs :: "(addr \<Rightarrow> ChBody) \<Rightarrow> ChLinkRevoluteTranslational \<Rightarrow> ChVector3d" where
  "GetDirY2Abs bodies j = TransformDirectionLocalToParent (bodies (m_body2 j)) (m_y2 j)"

definition GetConstraintViolation :: "ChLinkRevoluteTranslational \<Rightarrow> ChVectorDynamic" where
  "GetConstraintViolation j = to_dynamic (m_C j)"

text \<open>
  Modelled from the spec: the bodies of \<open>Initialize\<close>, \<open>Update\<close>, \<open>ConstraintsBiReset\<close> and
  \<open>ConstraintsBiLoad_C\<close> of the joint are in ChLinkRevoluteTranslational.cpp, which is not
  among the sources; their signatures are the header's. The joint is modelled together
  with the store of the bodies its pointers lead into.

  \<open>Initialize\<close> (the overload with explicit points and directions) is declared \<open>void\<close>. It
  records the two bodies and the points and directions in the local body frames ("If
  local = true, it is assumed that these quantities are specified in the local body
  frames. Otherwise, it is assumed that they are specified in the absolute frame"), and the
  imposed distance, which with \<open>auto_distance\<close> is "the Euclidean distance between the two
  configured points at initialization time". \<open>ChLinkRevoluteTranslational_Initialize\<close> is
  what a call that goes through records; whether a call goes through is \<open>call_Initialize\<close>
  below.
\<close>

record joint_world =
  bodies :: "addr \<Rightarrow> ChBody"
  joint :: ChLinkRevoluteTranslational

definition ChLinkRevoluteTranslational_Initialize ::
  "addr \<Rightarrow> addr \<Rightarrow> bool \<Rightarrow> ChVector3d \<Rightarrow> ChVector3d \<Rightarrow> ChVector3d \<Rightarrow> ChVector3d \<Rightarrow> ChVector3d \<Rightarrow>
   bool \<Rightarrow> double \<Rightarrow> joint_world \<Rightarrow> joint_world" where
  "ChLinkRevoluteTranslational_Initialize body1 body2 local p1 dirZ1 p2 dirX2 dirY2
       auto_distance distance w =
     (let b1 = bodies w body1;
          b2 = bodies w body2;
          p1_abs = (if local then TransformPointLocalToParent b1 p1 else p1);
          p2_abs = (if local then TransformPointLocalToParent b2 p2 else p2)
      in w\<lparr>joint := (joint w)
           \<lparr>m_body1 := body1,
            m_body2 := body2,
            m_p1 := (if local then p1 else TransformPointParentToLocal b1 p1),
            m_p2 := (if local then p2 else TransformPointParentToLocal b2 p2),
            m_z1 := (if local then dirZ1 else TransformDirectionParentToLocal b1 dirZ1),
            m_x2 := (if local then dirX2 else TransformDirectionParentToLocal b2 dirX2),
            m_y2 := (if local then dirY2 else TransformDirectionParentToLocal b2 dirY2),
            m_dist := (if auto_distance then Vlength (Vsub p2_abs p1_abs) else distance)\<rparr>\<rparr>)"




text \<open>
  \<open>Update\<close> re-expresses the local points and directions in the absolute frame and caches
  the four constraint values of the spec: \<open>par1\<close> is \<open>z1 . x2\<close>, \<open>par2\<close> is \<open>z1 . y2\<close>,
  \<open>dot\<close> is \<open>(p2_abs - p1_abs) . z1\<close> and \<open>dist\<close> compares the length of \<open>p2_abs - p1_abs\<close>
  with the imposed distance. The violations go to \<open>m_C\<close> in the order par1, par2, dot,
  dist. The spec gives no formulas for the Jacobian rows, which stay as they are here.
\<close>

definition ChLinkRevoluteTranslational_Update :: "double \<Rightarrow> bool \<Rightarrow> joint_world \<Rightarrow> joint_world" where
  "ChLinkRevoluteTranslational_Update time update_assets w =
     (let j = joint w;
          p1_abs = GetPoint1Abs (bodies w) j;
          p2_abs = GetPoint2Abs (bodies w) j;
          z1_abs = GetDirZ1Abs (bodies w) j;
          x2_abs = GetDirX2Abs (bodies w) j;
          y2_abs = GetDirY2Abs (bodies w) j;
          d12_abs = Vsub p2_abs p1_abs;
          par1 = Vdot z1_abs x2_abs;
          par2 = Vdot z1_abs y2_abs;
          dot = Vdot d12_abs z1_abs;
          dist = Vlength d12_abs
      in w\<lparr>joint := j
           \<lparr>m_cur_par1 := par1,
            m_cur_par2 := par2,
            m_cur_dot := dot,
            m_cur_dist := dist,
            m_C := ChVectorN4 par1 par2 dot (dist - m_dist j)\<rparr>\<rparr>)"

definition ChLinkRevoluteTranslational_ConstraintsBiReset ::
  "ChLinkRevoluteTranslational \<Rightarrow> ChLinkRevoluteTranslational" where
  "ChLinkRevoluteTranslational_ConstraintsBiReset j =
     j\<lparr>m_cnstr_par1 := SetRightHandSide 0 (m_cnstr_par1 j),
       m_cnstr_par2 := SetRightHandSide 0 (m_cnstr_par2 j),
       m_cnstr_dot := SetRightHandSide 0 (m_cnstr_dot j),
       m_cnstr_dist := SetRightHandSide 0 (m_cnstr_dist j)\<rparr>"

definition load_C :: "double \<Rightarrow> double \<Rightarrow> bool \<Rightarrow> double \<Rightarrow> ChConstraint \<Rightarrow> ChConstraint" where
  "load_C factor recovery_clamp do_clamp C c =
     SetRightHandSide (GetRightHandSide c + stabilization_term factor recovery_clamp do_clamp C) c"

definition ChLinkRevoluteTranslational_ConstraintsBiLoad_C ::
  "double \<Rightarrow> double \<Rightarrow> bool \<Rightarrow> ChLinkRevoluteTranslational \<Rightarrow> ChLinkRevoluteTranslational" where
  "ChLinkRevoluteTranslational_ConstraintsBiLoad_C factor recovery_clamp do_clamp j =
     (case m_C j of ChVectorN4 C_par1 C_par2 C_dot C_dist \<Rightarrow>
        j\<lparr>m_cnstr_par1 := load_C factor recovery_clamp do_clamp C_par1 (m_cnstr_par1 j),
          m_cnstr_par2 := load_C factor recovery_clamp do_clamp C_par2 (m_cnstr_par2 j),
          m_cnstr_dot := load_C factor recovery_clamp do_clamp C_dot (m_cnstr_dot j),
          m_cnstr_dist := load_C factor recovery_clamp do_clamp C_dist (m_cnstr_dist j)\<rparr>)"

text \<open>
  The rotation matrix of a frame has orthonormal rows; then the transform to the local
  frame undoes the transform to the absolute frame.
\<close>

fun orthonormal :: "ChMatrix33 \<Rightarrow> bool" where
  "orthonormal (ChMatrix33 u v w) =
     (Vdot u u = 1 \<and> Vdot v v = 1 \<and> Vdot w w = 1 \<and>
      Vdot u v = 0 \<and> Vdot u w = 0 \<and> Vdot v w = 0)"

text \<open>Concrete objects for the closed statements below.\<close>

definition identity_rot :: ChMatrix33 where
  "identity_rot = ChMatrix33 (ChVector3d 1 0 0) (ChVector3d 0 1 0) (ChVector3d 0 0 1)"

definition example_body :: "ChVector3d \<Rightarrow> ChBody" where
  "example_body p =
     \<lparr>frame_pos = p, frame_rot = identity_rot,
      frame_pos_dt = ChVector3d 0 0 0, frame_ang_vel = ChVector3d 0 0 0\<rparr>"

definition empty_row :: ChConstraint where
  "empty_row = \<lparr>Cq = [], l_i = 0, b_i = 0\<rparr>"

definition example_joint :: ChLinkRevoluteTranslational where
  "example_joint =
     \<lparr>m_body1 = 0, m_body2 = 0,
      m_p1 = ChVector3d 0 0 0, m_p2 = ChVector3d 0 0 0, m_z1 = ChVector3d 0 0 1,
      m_x2 = ChVector3d 1 0 0, m_y2 = ChVector3d 0 1 0, m_dist = 0,
      m_cur_par1 = 0, m_cur_par2 = 0, m_cur_dot = 0, m_cur_dist = 0,
      m_cnstr_par1 = empty_row, m_cnstr_par2 = empty_row,
      m_cnstr_dot = empty_row, m_cnstr_dist = empty_row,
      m_C = ChVectorN4 0 0 0 0, m_multipliers = ChVectorN4 0 0 0 0\<rparr>"

definition example_world :: joint_world where
  "example_world =
     \<lparr>bodies = (\<lambda>a. if a = 2 then example_body (ChVector3d 3 4 0)
                      else example_body (ChVector3d 0 0 0)),
      joint = example_joint\<rparr>"

section \<open>Properties of the planetary coupling\<close>

text \<open>
  C1. In every state of the planetary coupling the three reaction accessors return the
  corresponding transmission ratio times the one cached multiplier \<open>torque_react\<close>; hence
  the three reported reactions stand to each other as the ratios do.
\<close>

theorem reactions_are_ratio_times_torque_react:
  "ChShaftsPlanetary_GetReaction1 g = r1 g * torque_react g \<and>
   ChShaftsPlanetary_GetReaction2 g = r2 g * torque_react g \<and>
   GetTorqueReactionOn3 g = r3 g * torque_react g \<and>
   r2 g * ChShaftsPlanetary_GetReaction1 g = r1 g * ChShaftsPlanetary_GetReaction2 g \<and>
   r3 g * ChShaftsPlanetary_GetReaction2 g = r2 g * GetTorqueReactionOn3 g \<and>
   r3 g * ChShaftsPlanetary_GetReaction1 g = r1 g * GetTorqueReactionOn3 g"
  by (simp add: ChShaftsPlanetary_GetReaction1_def ChShaftsPlanetary_GetReaction2_def
      GetTorqueReactionOn3_def)

text \<open>
  C3 (as the claim states it, refuted). The claim says that configuring the coupling from
  the ordinary ratio \<open>t0 = 1\<close> is rejected or flagged. \<open>SetTransmissionRatioOrdinary\<close> is a
  \<open>void\<close> function of three assignments: called with \<open>1\<close> it returns nothing and installs
  the ratios \<open>0, 1, -1\<close>, exactly as the direct setter \<open>SetTransmissionRatios(0, 1, -1)\<close>
  would.
\<close>

theorem ordinary_ratio_one_is_accepted:
  "call_void (SetTransmissionRatioOrdinary 1) example_gear =
     (Void :: bool returned, SetTransmissionRatios 0 1 (- 1) example_gear) \<and>
   GetTransmissionR1 (SetTransmissionRatioOrdinary 1 example_gear) = 0 \<and>
   GetTransmissionR2 (SetTransmissionRatioOrdinary 1 example_gear) = 1 \<and>
   GetTransmissionR3 (SetTransmissionRatioOrdinary 1 example_gear) = - 1"
  by (simp add: call_void_def SetTransmissionRatioOrdinary_def SetTransmissionRatios_def
      GetTransmissionR1_def GetTransmissionR2_def GetTransmissionR3_def)

text \<open>
  C3 (amended). \<open>SetTransmissionRatioOrdinary\<close> checks nothing: for every \<open>t0\<close>, \<open>t0 = 1\<close>
  included, it returns nothing, has the effect of \<open>SetTransmissionRatios(1 - t0, t0, -1)\<close>
  and leaves every other member of the coupling as it was. Keeping \<open>t0\<close> different from
  \<open>1\<close> is the caller's part, as the header's note says.
\<close>

theorem ordinary_ratio_setter_checks_nothing:
  "call_void (SetTransmissionRatioOrdinary t0) g =
     (Void, SetTransmissionRatios (1 - t0) t0 (- 1) g) \<and>
   active (SetTransmissionRatioOrdinary t0 g) = active g \<and>
   torque_react (SetTransmissionRatioOrdinary t0 g) = torque_react g \<and>
   avoid_phase_drift (SetTransmissionRatioOrdinary t0 g) = avoid_phase_drift g \<and>
   phase1 (SetTransmissionRatioOrdinary t0 g) = phase1 g \<and>
   phase2 (SetTransmissionRatioOrdinary t0 g) = phase2 g \<and>
   phase3 (SetTransmissionRatioOrdinary t0 g) = phase3 g \<and>
   constraint (SetTransmissionRatioOrdinary t0 g) = constraint g \<and>
   shaft1 (SetTransmissionRatioOrdinary t0 g) = shaft1 g \<and>
   shaft2 (SetTransmissionRatioOrdinary t0 g) = shaft2 g \<and>
   shaft3 (SetTransmissionRatioOrdinary t0 g) = shaft3 g"
  by (simp add: call_void_def SetTransmissionRatioOrdinary_def SetTransmissionRatios_def)

text \<open>
  C6. For every \<open>t0\<close>, after \<open>SetTransmissionRatioOrdinary(t0)\<close> the three getters return
  \<open>1 - t0\<close>, \<open>t0\<close> and \<open>-1\<close>.
\<close>

theorem ordinary_ratio_sets_r1_r2_r3:
  "GetTransmissionR1 (SetTransmissionRatioOrdinary t0 g) = 1 - t0 \<and>
   GetTransmissionR2 (SetTransmissionRatioOrdinary t0 g) = t0 \<and>
   GetTransmissionR3 (SetTransmissionRatioOrdinary t0 g) = - 1"
  by (simp add: SetTransmissionRatioOrdinary_def GetTransmissionR1_def GetTransmissionR2_def
      GetTransmissionR3_def)

text \<open>
  C9. Round trip of the ordinary ratio: \<open>GetTransmissionRatioOrdinary\<close> after
  \<open>SetTransmissionRatioOrdinary(t0)\<close> returns \<open>t0\<close>, since it computes \<open>- t0 / (- 1)\<close>. It
  holds for every \<open>t0\<close>, so in particular for every \<open>t0\<close> different from \<open>1\<close>.
\<close>

theorem ordinary_ratio_round_trip:
  "GetTransmissionRatioOrdinary (SetTransmissionRatioOrdinary t0 g) = t0"
  by (simp add: SetTransmissionRatioOrdinary_def GetTransmissionRatioOrdinary_def)

section \<open>Properties shared by the two connections\<close>

text \<open>
  C5. In every state \<open>GetNumConstraintsBilateral\<close> returns \<open>1\<close> for the planetary coupling,
  whose row spans three scalar coordinates (\<open>GetNumAffectedCoords\<close> is \<open>3\<close>), and \<open>4\<close> for
  the revolute-translational joint.
\<close>

theorem constraint_counts:
  "ChShaftsPlanetary_GetNumConstraintsBilateral g = 1 \<and>
   GetNumAffectedCoords g = 3 \<and>
   ChLinkRevoluteTranslational_GetNumConstraintsBilateral j = 4"
  by (simp add: ChShaftsPlanetary_GetNumConstraintsBilateral_def GetNumAffectedCoords_def
      ChLinkRevoluteTranslational_GetNumConstraintsBilateral_def)

subsection \<open>The stabilization term\<close>

lemma stabilization_term_clamped:
  "0 \<le> recovery_clamp \<Longrightarrow>
   stabilization_term factor recovery_clamp True C =
     (if recovery_clamp < factor * C then recovery_clamp
      else if factor * C < - recovery_clamp then - recovery_clamp
      else factor * C)"
  by (simp add: stabilization_term_def min_def max_def)

lemma stabilization_term_unclamped:
  "stabilization_term factor recovery_clamp False C = factor * C"
  by (simp add: stabilization_term_def)

lemma rhs_load_C:
  "GetRightHandSide (load_C factor recovery_clamp do_clamp C (SetRightHandSide 0 c)) =
     stabilization_term factor recovery_clamp do_clamp C"
  by (simp add: load_C_def GetRightHandSide_def SetRightHandSide_def)

lemma planetary_rhs_after_load:
  "GetRightHandSide (constraint (ChShaftsPlanetary_ConstraintsBiLoad_C C factor recovery_clamp
      do_clamp (ChShaftsPlanetary_ConstraintsBiReset g))) =
     stabilization_term factor recovery_clamp do_clamp C"
  by (simp add: ChShaftsPlanetary_ConstraintsBiLoad_C_def ChShaftsPlanetary_ConstraintsBiReset_def
      GetRightHandSide_def SetRightHandSide_def)

lemma joint_rhs_after_load:
  "(let j' = ChLinkRevoluteTranslational_ConstraintsBiLoad_C factor recovery_clamp do_clamp
              (ChLinkRevoluteTranslational_ConstraintsBiReset j)
    in map GetRightHandSide [m_cnstr_par1 j', m_cnstr_par2 j', m_cnstr_dot j', m_cnstr_dist j']) =
   map (stabilization_term factor recovery_clamp do_clamp) (GetConstraintViolation j)"
  by (cases "m_C j")
    (simp add: ChLinkRevoluteTranslational_ConstraintsBiLoad_C_def
      ChLinkRevoluteTranslational_ConstraintsBiReset_def GetConstraintViolation_def rhs_load_C)

text \<open>
  C4. After a reset, \<open>ConstraintsBiLoad_C(factor, recovery_clamp, do_clamp)\<close> leaves in the
  right-hand side of each row the violation scaled by \<open>factor\<close>, clamped in magnitude to
  \<open>recovery_clamp\<close> (a bound that is not negative) when \<open>do_clamp\<close> is set and unclamped
  otherwise, whatever \<open>recovery_clamp\<close> is: for the one row of
  the planetary coupling and for the four rows of the joint, which load the four
  components of \<open>m_C\<close>. With the header's \<open>factor = 1\<close> and \<open>recovery_clamp = 0.1\<close> and
  with \<open>do_clamp\<close> set, a violation of \<open>10\<close> loads \<open>0.1\<close> and a violation of \<open>0.05\<close> loads
  \<open>0.05\<close>; with all the header's defaults (\<open>do_clamp = false\<close>) a violation of \<open>10\<close> loads
  \<open>10\<close>.
\<close>

theorem ConstraintsBiLoad_C_loads_clamped_violation:
  assumes "do_clamp \<longrightarrow> 0 \<le> recovery_clamp"
  shows
    "GetRightHandSide (constraint (ChShaftsPlanetary_ConstraintsBiLoad_C C factor recovery_clamp
        do_clamp (ChShaftsPlanetary_ConstraintsBiReset g))) =
       (if do_clamp then
          (if recovery_clamp < factor * C then recovery_clamp
           else if factor * C < - recovery_clamp then - recovery_clamp
           else factor * C)
        else factor * C) \<and>
     (let j' = ChLinkRevoluteTranslational_ConstraintsBiLoad_C factor recovery_clamp do_clamp
                (ChLinkRevoluteTranslational_ConstraintsBiReset j)
      in map GetRightHandSide [m_cnstr_par1 j', m_cnstr_par2 j', m_cnstr_dot j', m_cnstr_dist j']) =
       map (\<lambda>C. if do_clamp then
                  (if recovery_clamp < factor * C then recovery_clamp
                   else if factor * C < - recovery_clamp then - recovery_clamp
                   else factor * C)
                else factor * C) (GetConstraintViolation j) \<and>
     GetRightHandSide (constraint (ChShaftsPlanetary_ConstraintsBiLoad_C 10 default_factor
        default_recovery_clamp True (ChShaftsPlanetary_ConstraintsBiReset g))) = 0.1 \<and>
     GetRightHandSide (constraint (ChShaftsPlanetary_ConstraintsBiLoad_C 0.05 default_factor
        default_recovery_clamp True (ChShaftsPlanetary_ConstraintsBiReset g))) = 0.05 \<and>
     GetRightHandSide (constraint (ChShaftsPlanetary_ConstraintsBiLoad_C 10 default_factor
        default_recovery_clamp default_do_clamp (ChShaftsPlanetary_ConstraintsBiReset g))) = 10"
proof -
  have term_eq: "stabilization_term factor recovery_clamp do_clamp =
      (\<lambda>C. if do_clamp then
                  (if recovery_clamp < factor * C then recovery_clamp
                   else if factor * C < - recovery_clamp then - recovery_clamp
                   else factor * C)
                else factor * C)"
  proof (cases do_clamp)
    case True
    then show ?thesis
      using assms by (simp add: stabilization_term_clamped fun_eq_iff)
  next
    case False
    then show ?thesis
      by (simp add: stabilization_term_unclamped fun_eq_iff)
  qed
  have big: "stabilization_term default_factor default_recovery_clamp True 10 = 0.1"
    by (simp add: stabilization_term_def default_factor_def default_recovery_clamp_def)
  have small: "stabilization_term default_factor default_recovery_clamp True 0.05 = 0.05"
    by (simp add: stabilization_term_def default_factor_def default_recovery_clamp_def)
  have plain: "stabilization_term default_factor default_recovery_clamp default_do_clamp 10 = 10"
    by (simp add: stabilization_term_def default_factor_def default_do_clamp_def)
  show ?thesis
    unfolding planetary_rhs_after_load joint_rhs_after_load
    by (simp only: term_eq big small plain simp_thms)
qed

text \<open>
  The theorem at \<open>recovery_clamp = 0.1\<close>, \<open>factor = 1\<close> and \<open>do_clamp\<close> set: the coupling
  loads \<open>0.1\<close> for a violation of \<open>10\<close>, and a joint whose cached violations are
  \<open>10, 0.05, -10, 0\<close> loads \<open>0.1, 0.05, -0.1, 0\<close>.
\<close>

theorem ConstraintsBiLoad_C_witness:
  "(0::real) \<le> 0.1 \<and>
   GetRightHandSide (constraint (ChShaftsPlanetary_ConstraintsBiLoad_C 10 1 0.1 True
      (ChShaftsPlanetary_ConstraintsBiReset example_gear))) = 0.1 \<and>
   map GetRightHandSide
     [m_cnstr_par1 (ChLinkRevoluteTranslational_ConstraintsBiLoad_C 1 0.1 True
        (ChLinkRevoluteTranslational_ConstraintsBiReset
           (example_joint\<lparr>m_C := ChVectorN4 10 0.05 (- 10) 0\<rparr>))),
      m_cnstr_par2 (ChLinkRevoluteTranslational_ConstraintsBiLoad_C 1 0.1 True
        (ChLinkRevoluteTranslational_ConstraintsBiReset
           (example_joint\<lparr>m_C := ChVectorN4 10 0.05 (- 10) 0\<rparr>))),
      m_cnstr_dot (ChLinkRevoluteTranslational_ConstraintsBiLoad_C 1 0.1 True
        (ChLinkRevoluteTranslational_ConstraintsBiReset
           (example_joint\<lparr>m_C := ChVectorN4 10 0.05 (- 10) 0\<rparr>))),
      m_cnstr_dist (ChLinkRevoluteTranslational_ConstraintsBiLoad_C 1 0.1 True
        (ChLinkRevoluteTranslational_ConstraintsBiReset
           (example_joint\<lparr>m_C := ChVectorN4 10 0.05 (- 10) 0\<rparr>)))] =
     [0.1, 0.05, - 0.1, 0]"
proof -
  have h: "True \<longrightarrow> (0::real) \<le> 0.1" by simp
  show ?thesis
    using h ConstraintsBiLoad_C_loads_clamped_violation [OF h, where C = 10 and factor = 1
        and g = example_gear
        and j = "example_joint\<lparr>m_C := ChVectorN4 10 0.05 (- 10) 0\<rparr>"]
    by (simp add: Let_def GetConstraintViolation_def)
qed

subsection \<open>Update and the holders\<close>

text \<open>
  C7. For both connections and every time value, \<open>Update\<close> leaves the store of the holders
  as it was: no shaft's position or speed and no body's frame or velocity changes. Of the
  connection itself only cached quantities change (the phases of the coupling; the current
  constraint values and violations of the joint): the configured members keep their
  values.
\<close>

theorem Update_leaves_holders_unchanged:
  "shafts (ChShaftsPlanetary_Update integrate time update_assets w) = shafts w \<and>
   (let g = gear w; g' = gear (ChShaftsPlanetary_Update integrate time update_assets w)
    in active g' = active g \<and> r1 g' = r1 g \<and> r2 g' = r2 g \<and> r3 g' = r3 g \<and>
       torque_react g' = torque_react g \<and> avoid_phase_drift g' = avoid_phase_drift g \<and>
       constraint g' = constraint g \<and>
       shaft1 g' = shaft1 g \<and> shaft2 g' = shaft2 g \<and> shaft3 g' = shaft3 g) \<and>
   bodies (ChLinkRevoluteTranslational_Update time update_assets v) = bodies v \<and>
   (let j = joint v; j' = joint (ChLinkRevoluteTranslational_Update time update_assets v)
    in m_body1 j' = m_body1 j \<and> m_body2 j' = m_body2 j \<and>
       m_p1 j' = m_p1 j \<and> m_p2 j' = m_p2 j \<and> m_z1 j' = m_z1 j \<and>
       m_x2 j' = m_x2 j \<and> m_y2 j' = m_y2 j \<and> m_dist j' = m_dist j \<and>
       m_multipliers j' = m_multipliers j)"
  by (simp add: ChShaftsPlanetary_Update_def ChLinkRevoluteTranslational_Update_def Let_def)

section \<open>Properties of the revolute-translational joint\<close>

text \<open>
  C10. \<open>GetConstraintViolation\<close> returns the cached vector \<open>m_C\<close>, of exactly four
  components, one for each bilateral constraint, and leaves the joint as it is. Nothing is
  recomputed: moving the bodies does not change what it returns. After an \<open>Update\<close> the
  components are the violations in the order par1, par2, dot, dist.
\<close>

theorem GetConstraintViolation_returns_cached_m_C:
  "call_const GetConstraintViolation j = (Returned (to_dynamic (m_C j)), j) \<and>
   length (GetConstraintViolation j) = 4 \<and>
   length (GetConstraintViolation j) = ChLinkRevoluteTranslational_GetNumConstraintsBilateral j \<and>
   GetConstraintViolation (joint (w\<lparr>bodies := moved\<rparr>)) = GetConstraintViolation (joint w) \<and>
   (let j' = joint (ChLinkRevoluteTranslational_Update time update_assets w)
    in GetConstraintViolation j' =
         [m_cur_par1 j', m_cur_par2 j', m_cur_dot j', m_cur_dist j' - m_dist j'])"
  by (cases "m_C j")
    (simp add: call_const_def GetConstraintViolation_def
      ChLinkRevoluteTranslational_GetNumConstraintsBilateral_def
      ChLinkRevoluteTranslational_Update_def Let_def)

subsection \<open>Initialize\<close>




lemma Vdot_Vadd_right: "Vdot u (Vadd p q) = Vdot u p + Vdot u q"
  by (cases u; cases p; cases q) (simp add: algebra_simps)

lemma Vdot_Vmul_right: "Vdot u (Vmul p k) = Vdot u p * k"
  by (cases u; cases p) (simp add: algebra_simps)

lemma Mat_times_transpose_times:
  assumes "orthonormal R"
  shows "Mat_times R (Mat_transpose_times R p) = p"
proof -
  obtain u v w where R: "R = ChMatrix33 u v w" by (cases R)
  obtain a b c where p: "p = ChVector3d a b c" by (cases p)
  have vu: "Vdot v u = Vdot u v" and wu: "Vdot w u = Vdot u w" and wv: "Vdot w v = Vdot v w"
    by (cases u; cases v; cases w; simp add: mult.commute)+
  show ?thesis
    using assms unfolding R p
    by (simp add: Vdot_Vadd_right Vdot_Vmul_right vu wu wv)
qed

lemma Vadd_Vsub_cancel: "Vadd q (Vsub p q) = p"
  by (cases p; cases q) simp

lemma local_to_parent_of_parent_to_local:
  "orthonormal (frame_rot b) \<Longrightarrow>
   TransformPointLocalToParent b (TransformPointParentToLocal b p) = p"
  by (simp add: TransformPointLocalToParent_def TransformPointParentToLocal_def
      Mat_times_transpose_times Vadd_Vsub_cancel)

lemma Vlength_Vsub:
  "Vlength (Vsub (ChVector3d a b c) (ChVector3d a' b' c')) =
     sqrt ((a - a')\<^sup>2 + (b - b')\<^sup>2 + (c - c')\<^sup>2)"
  by (simp add: Vlength_def power2_eq_square)

lemma sqrt_25: "sqrt 25 = 5"
proof -
  have "sqrt 25 = sqrt (5\<^sup>2)" by simp
  also have "\<dots> = 5" by (simp only: real_sqrt_abs abs_numeral)
  finally show ?thesis .
qed

text \<open>
  C8. When \<open>Initialize\<close> is called with \<open>auto_distance = true\<close>, the imposed distance that
  \<open>GetImposedDistance\<close> returns afterwards is the Euclidean distance between the two
  configured points in the configuration at initialization time: between the points as
  given when they are given in the absolute frame, between their images under the two
  body frames when they are given in the local frames; it is the distance between
  \<open>GetPoint2Abs\<close> and \<open>GetPoint1Abs\<close> right after the call. The bodies are not moved. For
  points given in the absolute frame this last part takes the rotation matrices of the
  two bodies to be orthonormal, as rotation matrices are.
\<close>

theorem auto_distance_is_euclidean_distance:
  "(let w' = ChLinkRevoluteTranslational_Initialize body1 body2 local p1 dirZ1 p2 dirX2 dirY2
               True distance w
    in bodies w' = bodies w \<and>
       GetImposedDistance (joint w') =
         Vlength (Vsub (if local then TransformPointLocalToParent (bodies w body2) p2 else p2)
                       (if local then TransformPointLocalToParent (bodies w body1) p1 else p1)) \<and>
       (local \<or> (orthonormal (frame_rot (bodies w body1)) \<and>
                  orthonormal (frame_rot (bodies w body2))) \<longrightarrow>
        GetImposedDistance (joint w') =
          Vlength (Vsub (GetPoint2Abs (bodies w') (joint w'))
                        (GetPoint1Abs (bodies w') (joint w')))))"
proof (cases local)
  case True
  then show ?thesis
    by (simp add: ChLinkRevoluteTranslational_Initialize_def Let_def GetImposedDistance_def
        GetPoint1Abs_def GetPoint2Abs_def)
next
  case False
  then show ?thesis
    by (simp add: ChLinkRevoluteTranslational_Initialize_def Let_def GetImposedDistance_def
        GetPoint1Abs_def GetPoint2Abs_def local_to_parent_of_parent_to_local)
qed

text \<open>
  The theorem at two inputs. With the local origins of a body at \<open>(0, 0, 0)\<close> and of a body
  at \<open>(3, 4, 0)\<close> as the two points, the imposed distance is \<open>5\<close>; with the absolute points
  \<open>(1, 1, 1)\<close> and \<open>(1, 4, 5)\<close> it is \<open>5\<close> as well, and so is the distance between
  \<open>GetPoint2Abs\<close> and \<open>GetPoint1Abs\<close> after the call.
\<close>

theorem auto_distance_witness:
  "(False \<or> (orthonormal (frame_rot (bodies example_world 3)) \<and>
             orthonormal (frame_rot (bodies example_world 2)))) \<and>
   GetImposedDistance (joint (ChLinkRevoluteTranslational_Initialize 3 2 True
      (ChVector3d 0 0 0) (ChVector3d 0 0 1) (ChVector3d 0 0 0) (ChVector3d 1 0 0)
      (ChVector3d 0 1 0) True 0 example_world)) = 5 \<and>
   GetImposedDistance (joint (ChLinkRevoluteTranslational_Initialize 3 2 False
      (ChVector3d 1 1 1) (ChVector3d 0 0 1) (ChVector3d 1 4 5) (ChVector3d 1 0 0)
      (ChVector3d 0 1 0) True 0 example_world)) = 5 \<and>
   Vlength (Vsub
     (GetPoint2Abs (bodies example_world)
        (joint (ChLinkRevoluteTranslational_Initialize 3 2 False
          (ChVector3d 1 1 1) (ChVector3d 0 0 1) (ChVector3d 1 4 5) (ChVector3d 1 0 0)
          (ChVector3d 0 1 0) True 0 example_world)))
     (GetPoint1Abs (bodies example_world)
        (joint (ChLinkRevoluteTranslational_Initialize 3 2 False
          (ChVector3d 1 1 1) (ChVector3d 0 0 1) (ChVector3d 1 4 5) (ChVector3d 1 0 0)
          (ChVector3d 0 1 0) True 0 example_world)))) = 5"
proof -
  have h: "False \<or> (orthonormal (frame_rot (bodies example_world 3)) \<and>
            orthonormal (frame_rot (bodies example_world 2)))"
    by (simp add: example_world_def example_body_def identity_rot_def)
  note init = auto_distance_is_euclidean_distance [of 3 2 True "ChVector3d 0 0 0"
      "ChVector3d 0 0 1" "ChVector3d 0 0 0" "ChVector3d 1 0 0" "ChVector3d 0 1 0" 0
      example_world, unfolded Let_def]
  note init' = auto_distance_is_euclidean_distance [of 3 2 False "ChVector3d 1 1 1"
      "ChVector3d 0 0 1" "ChVector3d 1 4 5" "ChVector3d 1 0 0" "ChVector3d 0 1 0" 0
      example_world, unfolded Let_def]
  have "GetImposedDistance (joint (ChLinkRevoluteTranslational_Initialize 3 2 True
      (ChVector3d 0 0 0) (ChVector3d 0 0 1) (ChVector3d 0 0 0) (ChVector3d 1 0 0)
      (ChVector3d 0 1 0) True 0 example_world)) =
      Vlength (Vsub (TransformPointLocalToParent (bodies example_world 2) (ChVector3d 0 0 0))
                    (TransformPointLocalToParent (bodies example_world 3) (ChVector3d 0 0 0)))"
    using conjunct1 [OF conjunct2 [OF init]] by simp
  also have "\<dots> = 5"
    by (simp add: example_world_def example_body_def identity_rot_def
        TransformPointLocalToParent_def Vlength_def sqrt_25)
  finally have local_case: "GetImposedDistance (joint (ChLinkRevoluteTranslational_Initialize 3 2
      True (ChVector3d 0 0 0) (ChVector3d 0 0 1) (ChVector3d 0 0 0) (ChVector3d 1 0 0)
      (ChVector3d 0 1 0) True 0 example_world)) = 5" .
  have "GetImposedDistance (joint (ChLinkRevoluteTranslational_Initialize 3 2 False
      (ChVector3d 1 1 1) (ChVector3d 0 0 1) (ChVector3d 1 4 5) (ChVector3d 1 0 0)
      (ChVector3d 0 1 0) True 0 example_world)) =
      Vlength (Vsub (ChVector3d 1 4 5) (ChVector3d 1 1 1))"
    using conjunct1 [OF conjunct2 [OF init']] by simp
  also have "\<dots> = 5"
    by (simp add: Vlength_def sqrt_25)
  finally have absolute_case: "GetImposedDistance (joint (ChLinkRevoluteTranslational_Initialize
      3 2 False (ChVector3d 1 1 1) (ChVector3d 0 0 1) (ChVector3d 1 4 5) (ChVector3d 1 0 0)
      (ChVector3d 0 1 0) True 0 example_world)) = 5" .
  have same_bodies: "bodies (ChLinkRevoluteTranslational_Initialize 3 2 False
      (ChVector3d 1 1 1) (ChVector3d 0 0 1) (ChVector3d 1 4 5) (ChVector3d 1 0 0)
      (ChVector3d 0 1 0) True 0 example_world) = bodies example_world"
    using conjunct1 [OF init'] .
  have accessors: "GetImposedDistance (joint (ChLinkRevoluteTranslational_Initialize 3 2 False
      (ChVector3d 1 1 1) (ChVector3d 0 0 1) (ChVector3d 1 4 5) (ChVector3d 1 0 0)
      (ChVector3d 0 1 0) True 0 example_world)) =
    Vlength (Vsub
     (GetPoint2Abs (bodies example_world)
        (joint (ChLinkRevoluteTranslational_Initialize 3 2 False
          (ChVector3d 1 1 1) (ChVector3d 0 0 1) (ChVector3d 1 4 5) (ChVector3d 1 0 0)
          (ChVector3d 0 1 0) True 0 example_world)))
     (GetPoint1Abs (bodies example_world)
        (joint (ChLinkRevoluteTranslational_Initialize 3 2 False
          (ChVector3d 1 1 1) (ChVector3d 0 0 1) (ChVector3d 1 4 5) (ChVector3d 1 0 0)
          (ChVector3d 0 1 0) True 0 example_world))))"
    using mp [OF conjunct2 [OF conjunct2 [OF init']] h] unfolding same_bodies .
  show ?thesis
    using h local_case absolute_case accessors by (simp only: simp_thms)
qed

end
